theory Spec2Isabelle
  imports Main
begin

section \<open>Organizational constants of the APDI Ghana site\<close>

text \<open>
  The module \<^verbatim>\<open>src/constants/site.ts\<close> exports three object literals, \<^verbatim>\<open>SITE\<close>,
  \<^verbatim>\<open>NAV_ITEMS\<close> and \<^verbatim>\<open>FOOTER_LINKS\<close>. Each object shape becomes a record, each array
  a list in the order of the literal, each TypeScript string a \<^typ>\<open>string\<close>. Several
  shapes share field names (\<^verbatim>\<open>name\<close>, \<^verbatim>\<open>url\<close>, \<^verbatim>\<open>href\<close>, \<^verbatim>\<open>label\<close>); the fields are
  therefore always written with the record's name in front.
\<close>

subsection \<open>Shapes\<close>

text \<open>An entry of \<^verbatim>\<open>SITE.social\<close>.\<close>

record social_link =
  name :: string
  icon :: string
  url :: string
  handle :: string

text \<open>The object \<^verbatim>\<open>SITE\<close>.\<close>

record site =
  name :: string
  fullName :: string
  tagline :: string
  url :: string
  email :: string
  mission :: string
  social :: "social_link list"

text \<open>An entry of \<^verbatim>\<open>NAV_ITEMS\<close>.\<close>

record nav_item =
  href :: string
  label :: string

text \<open>
  An entry of a group of \<^verbatim>\<open>FOOTER_LINKS\<close>. The property \<^verbatim>\<open>external\<close> is written on
  some entries only: \<^term>\<open>None\<close> is an entry without it.
\<close>

record footer_link =
  href :: string
  label :: string
  external :: "bool option"

text \<open>The object \<^verbatim>\<open>FOOTER_LINKS\<close>.\<close>

record footer_links =
  quickLinks :: "footer_link list"
  resources :: "footer_link list"
  legal :: "footer_link list"

subsection \<open>The exported constants\<close>

definition SITE :: site where
  "SITE = \<lparr>
     site.name = ''APDI'',
     fullName = ''Association for the Protection of Digital Innovation'',
     tagline = ''Protecting Digital Innovation'',
     site.url = ''https://apdigh.org'',
     email = ''contact@apdigh.org'',
     mission = ''Protecting Ghana's digital innovation sector by informing citizens about tech bills and their impacts on startups, innovation, and the digital economy.'',
     social = [
       \<lparr> social_link.name = ''Twitter'',
         icon = ''ti ti-brand-x'',
         social_link.url = ''https://twitter.com/apdigh'',
         handle = ''@apdigh'' \<rparr>,
       \<lparr> social_link.name = ''YouTube'',
         icon = ''ti ti-brand-youtube'',
         social_link.url = ''https://www.youtube.com/@apdigh'',
         handle = ''@apdigh'' \<rparr>
     ]
   \<rparr>"

definition NAV_ITEMS :: "nav_item list" where
  "NAV_ITEMS = [
     \<lparr> nav_item.href = ''/'', nav_item.label = ''Home'' \<rparr>,
     \<lparr> nav_item.href = ''/bills'', nav_item.label = ''Bills'' \<rparr>,
     \<lparr> nav_item.href = ''/about'', nav_item.label = ''About'' \<rparr>
   ]"

definition FOOTER_LINKS :: footer_links where
  "FOOTER_LINKS = \<lparr>
     quickLinks = [
       \<lparr> footer_link.href = ''/bills'', footer_link.label = ''All Bills'', external = None \<rparr>,
       \<lparr> footer_link.href = ''/about'', footer_link.label = ''About Us'', external = None \<rparr>
     ],
     resources = [
       \<lparr> footer_link.href = ''https://github.com/apdigh-org/apdigh.org'',
         footer_link.label = ''GitHub Repository'',
         external = Some True \<rparr>
     ],
     legal = [
       \<lparr> footer_link.href = ''/about#transparency'', footer_link.label = ''AI Transparency'',
         external = None \<rparr>
     ]
   \<rparr>"

subsection \<open>String predicates of the specification\<close>

text \<open>
  The source holds data only; it has no validator. The predicates below are the
  syntactic notions the specification's properties are worded in.
\<close>

text \<open>JavaScript's \<^verbatim>\<open>s.startsWith(p)\<close>.\<close>

definition startsWith :: "string \<Rightarrow> string \<Rightarrow> bool" where
  "startsWith s p = (take (length p) s = p)"

definition is_alpha :: "char \<Rightarrow> bool" where
  "is_alpha c = (c \<in> set ''abcdefghijklmnopqrstuvwxyzABCDEFGHIJKLMNOPQRSTUVWXYZ'')"

definition is_digit :: "char \<Rightarrow> bool" where
  "is_digit c = (c \<in> set ''0123456789'')"

definition scheme_char :: "char \<Rightarrow> bool" where
  "scheme_char c = (is_alpha c \<or> is_digit c \<or> c \<in> set ''+-.'')"

definition host_char :: "char \<Rightarrow> bool" where
  "host_char c = (is_alpha c \<or> is_digit c \<or> c = CHR ''-'')"

definition local_char :: "char \<Rightarrow> bool" where
  "local_char c = (is_alpha c \<or> is_digit c \<or> c \<in> set ''._%+-'')"

text \<open>
  \<^term>\<open>split_on d s\<close> cuts \<^term>\<open>s\<close> at every occurrence of \<^term>\<open>d\<close>, as
  \<^verbatim>\<open>s.split(d)\<close> does: the list of pieces is never empty, and two adjacent
  delimiters give an empty piece.
\<close>

fun split_on :: "char \<Rightarrow> string \<Rightarrow> string list" where
  "split_on d [] = [[]]"
| "split_on d (c # cs) =
     (if c = d then [] # split_on d cs
      else (case split_on d cs of
              [] \<Rightarrow> [[c]]
            | w # ws \<Rightarrow> (c # w) # ws))"

text \<open>A scheme: a letter, then letters, digits, \<^verbatim>\<open>+\<close>, \<^verbatim>\<open>-\<close> or \<^verbatim>\<open>.\<close>.\<close>

definition valid_scheme :: "string \<Rightarrow> bool" where
  "valid_scheme s = (case s of [] \<Rightarrow> False | c # cs \<Rightarrow> is_alpha c \<and> list_all scheme_char cs)"

text \<open>
  A host name: labels separated by dots, each label non-empty and made of letters,
  digits and hyphens. The empty string is no host (it splits into one empty label).
\<close>

definition valid_host :: "string \<Rightarrow> bool" where
  "valid_host h = list_all (\<lambda>l. l \<noteq> [] \<and> list_all host_char l) (split_on (CHR ''.'') h)"

text \<open>
  Modelled from the spec: the source has no URL validator; this is the specification's
  "valid absolute-URL pattern (scheme + host)". The string is a scheme, the separator
  \<^verbatim>\<open>://\<close>, and a host name that runs to the first \<^verbatim>\<open>/\<close>, \<^verbatim>\<open>?\<close> or \<^verbatim>\<open>#\<close> or to the
  end; no character of the string is a space. A port or user information in the
  authority is not accepted. The labels of the host are checked for their characters
  only: a label of digits or of hyphens alone passes.
\<close>

definition is_absolute_url :: "string \<Rightarrow> bool" where
  "is_absolute_url s =
     (let scheme = takeWhile (\<lambda>c. c \<noteq> CHR '':'') s;
          rest = dropWhile (\<lambda>c. c \<noteq> CHR '':'') s
      in valid_scheme scheme
         \<and> startsWith rest ''://''
         \<and> valid_host (takeWhile (\<lambda>c. c \<notin> set ''/?#'') (drop 3 rest))
         \<and> list_all (\<lambda>c. c \<noteq> CHR '' '') s)"

text \<open>
  Modelled from the spec: the source has no e-mail validator; this is the
  specification's "syntactically valid email address". The string is a non-empty local
  part of letters, digits and \<^verbatim>\<open>._%+-\<close>, one \<^verbatim>\<open>@\<close>, and a host name of at least two
  labels. Where the dots of the local part stand and how a label begins is not
  checked.
\<close>

definition is_email :: "string \<Rightarrow> bool" where
  "is_email s =
     (let local_part = takeWhile (\<lambda>c. c \<noteq> CHR ''@'') s;
          rest = dropWhile (\<lambda>c. c \<noteq> CHR ''@'') s;
          domain = drop 1 rest
      in local_part \<noteq> []
         \<and> list_all local_char local_part
         \<and> startsWith rest ''@''
         \<and> valid_host domain
         \<and> 2 \<le> length (split_on (CHR ''.'') domain))"

section \<open>The predicates on sample strings\<close>

lemmas string_pred_defs =
  startsWith_def is_alpha_def is_digit_def scheme_char_def host_char_def local_char_def
  valid_scheme_def valid_host_def is_absolute_url_def is_email_def

lemma split_on_not_Nil: "split_on d s \<noteq> []"
  by (induction s) (auto split: list.splits)

lemma split_on_example: "split_on (CHR ''.'') ''www.youtube.com'' = [''www'', ''youtube'', ''com'']"
  by simp

lemma is_absolute_url_rejects_path: "\<not> is_absolute_url ''/about#transparency''"
  by (simp add: string_pred_defs)

lemma is_absolute_url_rejects_no_host: "\<not> is_absolute_url ''https:///bills''"
  by (simp add: string_pred_defs)

lemma is_absolute_url_rejects_no_scheme: "\<not> is_absolute_url ''apdigh.org''"
  by (simp add: string_pred_defs)

lemma is_email_rejects_no_at: "\<not> is_email ''contact.apdigh.org''"
  by (simp add: string_pred_defs)

lemma is_email_rejects_no_local_part: "\<not> is_email ''@apdigh''"
  by (simp add: string_pred_defs)

lemma is_email_rejects_two_ats: "\<not> is_email ''contact@apdigh@org.gh''"
  by (simp add: string_pred_defs)

section \<open>Concrete scenarios\<close>

text \<open>
  C4: \<^verbatim>\<open>SITE.name\<close> is the string \<^verbatim>\<open>APDI\<close> and \<^verbatim>\<open>SITE.tagline\<close> is the string
  \<^verbatim>\<open>Protecting Digital Innovation\<close>.
\<close>

theorem SITE_name_tagline:
  "site.name SITE = ''APDI'' \<and> tagline SITE = ''Protecting Digital Innovation''"
  by (simp add: SITE_def)

text \<open>
  C1: \<^verbatim>\<open>NAV_ITEMS\<close> has exactly three entries; their hrefs are, in order, \<^verbatim>\<open>/\<close>,
  \<^verbatim>\<open>/bills\<close>, \<^verbatim>\<open>/about\<close> and their labels are, in order, \<^verbatim>\<open>Home\<close>, \<^verbatim>\<open>Bills\<close>,
  \<^verbatim>\<open>About\<close>.
\<close>

theorem NAV_ITEMS_entries:
  "length NAV_ITEMS = 3
   \<and> map nav_item.href NAV_ITEMS = [''/'', ''/bills'', ''/about'']
   \<and> map nav_item.label NAV_ITEMS = [''Home'', ''Bills'', ''About'']"
  by (simp add: NAV_ITEMS_def)

text \<open>
  C2: \<^verbatim>\<open>SITE.social\<close> has exactly two entries, named \<^verbatim>\<open>Twitter\<close> and \<^verbatim>\<open>YouTube\<close>, and
  the handle of each is a non-empty string whose first character is \<^verbatim>\<open>@\<close>.
\<close>

theorem SITE_social_entries:
  "length (social SITE) = 2
   \<and> map social_link.name (social SITE) = [''Twitter'', ''YouTube'']
   \<and> list_all (\<lambda>s. handle s \<noteq> [] \<and> startsWith (handle s) ''@'') (social SITE)"
  by (simp add: SITE_def startsWith_def)

text \<open>
  C3: \<^verbatim>\<open>FOOTER_LINKS.resources\<close> has exactly one entry; its \<^verbatim>\<open>external\<close> is
  \<^verbatim>\<open>true\<close> and its href is \<^verbatim>\<open>https://github.com/apdigh-org/apdigh.org\<close>.
\<close>

theorem FOOTER_LINKS_resources_entry:
  "length (resources FOOTER_LINKS) = 1
   \<and> map external (resources FOOTER_LINKS) = [Some True]
   \<and> map footer_link.href (resources FOOTER_LINKS) = [''https://github.com/apdigh-org/apdigh.org'']"
  by (simp add: FOOTER_LINKS_def)

section \<open>Well-formedness of the entries\<close>

text \<open>
  C5: in each of the three groups of \<^verbatim>\<open>FOOTER_LINKS\<close>, an entry whose \<^verbatim>\<open>external\<close> is
  \<^verbatim>\<open>true\<close> has a valid absolute URL (scheme and host) as href, and an entry whose
  \<^verbatim>\<open>external\<close> is \<^verbatim>\<open>false\<close> or absent has an href that starts with \<^verbatim>\<open>/\<close>.
\<close>

theorem FOOTER_LINKS_href_by_external:
  "list_all
     (\<lambda>l. if external l = Some True then is_absolute_url (footer_link.href l)
          else startsWith (footer_link.href l) ''/'')
     (quickLinks FOOTER_LINKS @ resources FOOTER_LINKS @ legal FOOTER_LINKS)"
  by (simp add: FOOTER_LINKS_def string_pred_defs)

text \<open>
  C6: the href of every entry of \<^verbatim>\<open>NAV_ITEMS\<close> starts with \<^verbatim>\<open>/\<close> and its label is a
  non-empty string.
\<close>

theorem NAV_ITEMS_relative_and_labelled:
  "list_all (\<lambda>n. startsWith (nav_item.href n) ''/'' \<and> nav_item.label n \<noteq> []) NAV_ITEMS"
  by (simp add: NAV_ITEMS_def startsWith_def)

text \<open>
  C7: \<^verbatim>\<open>SITE.url\<close> is a valid absolute URL, \<^verbatim>\<open>SITE.email\<close> is a syntactically valid
  e-mail address, and every entry of \<^verbatim>\<open>SITE.social\<close> has a valid absolute URL (scheme
  and host) as url and a non-empty handle.
\<close>

theorem SITE_url_email_social_valid:
  "is_absolute_url (site.url SITE)
   \<and> is_email (email SITE)
   \<and> list_all (\<lambda>s. is_absolute_url (social_link.url s) \<and> handle s \<noteq> []) (social SITE)"
  by (simp add: SITE_def string_pred_defs)

text \<open>
  C8: no string field is empty: not the six string fields of \<^verbatim>\<open>SITE\<close>, not the four
  fields of an entry of \<^verbatim>\<open>SITE.social\<close>, not the href or label of an entry of
  \<^verbatim>\<open>NAV_ITEMS\<close>, not the href or label of an entry of a group of \<^verbatim>\<open>FOOTER_LINKS\<close>.
\<close>

theorem all_string_fields_nonempty:
  "site.name SITE \<noteq> [] \<and> fullName SITE \<noteq> [] \<and> tagline SITE \<noteq> []
   \<and> site.url SITE \<noteq> [] \<and> email SITE \<noteq> [] \<and> mission SITE \<noteq> []
   \<and> list_all
        (\<lambda>s. social_link.name s \<noteq> [] \<and> icon s \<noteq> [] \<and> social_link.url s \<noteq> [] \<and> handle s \<noteq> [])
        (social SITE)
   \<and> list_all (\<lambda>n. nav_item.href n \<noteq> [] \<and> nav_item.label n \<noteq> []) NAV_ITEMS
   \<and> list_all (\<lambda>l. footer_link.href l \<noteq> [] \<and> footer_link.label l \<noteq> [])
        (quickLinks FOOTER_LINKS @ resources FOOTER_LINKS @ legal FOOTER_LINKS)"
  by (simp add: SITE_def NAV_ITEMS_def FOOTER_LINKS_def)

text \<open>
  C10: the hrefs of \<^verbatim>\<open>FOOTER_LINKS.quickLinks\<close> are \<^verbatim>\<open>/bills\<close> and \<^verbatim>\<open>/about\<close>, and each
  of them is the href of some entry of \<^verbatim>\<open>NAV_ITEMS\<close>.
\<close>

theorem quickLinks_within_NAV_ITEMS:
  "map footer_link.href (quickLinks FOOTER_LINKS) = [''/bills'', ''/about'']
   \<and> list_all (\<lambda>l. footer_link.href l \<in> set (map nav_item.href NAV_ITEMS))
        (quickLinks FOOTER_LINKS)"
  by (simp add: FOOTER_LINKS_def NAV_ITEMS_def)

end
